theory Spec2Isabelle
  imports Main
begin

section \<open>Values of the token object\<close>

text \<open>
  The server keeps one JavaScript object, \<^verbatim>\<open>hubspotTokens\<close>, with the credential fields
  \<^verbatim>\<open>access_token\<close> and \<^verbatim>\<open>refresh_token\<close> and the numeric fields \<^verbatim>\<open>expires_in\<close> and
  \<^verbatim>\<open>expiry_date\<close>.

  A credential is a string or is missing (\<^verbatim>\<open>undefined\<close>): \<open>string option\<close>.
  A numeric field is a number, \<^verbatim>\<open>undefined\<close>, \<^verbatim>\<open>null\<close> (what \<^verbatim>\<open>NaN\<close> becomes in a JSON
  file) or \<^verbatim>\<open>NaN\<close> (what arithmetic on \<^verbatim>\<open>undefined\<close> gives). Numbers are integers:
  \<^verbatim>\<open>Date.now()\<close> is a whole number of milliseconds and the upstream lifetime a whole number
  of seconds. Other JSON types in these fields are outside the model.
\<close>

datatype jsnum = JUndefined | JNull | JNum int | JNaN

text \<open>JavaScript truthiness, as \<^verbatim>\<open>!x\<close>, \<^verbatim>\<open>x && y\<close> and \<^verbatim>\<open>x ? a : b\<close> test it.\<close>

fun truthy_str :: "string option \<Rightarrow> bool" where
  "truthy_str None = False"
| "truthy_str (Some s) = (s \<noteq> [])"

fun truthy_num :: "jsnum \<Rightarrow> bool" where
  "truthy_num JUndefined = False"
| "truthy_num JNull = False"
| "truthy_num (JNum n) = (n \<noteq> 0)"
| "truthy_num JNaN = False"

text \<open>\<^verbatim>\<open>ToNumber\<close>: \<open>None\<close> stands for \<^verbatim>\<open>NaN\<close>.\<close>

fun to_number :: "jsnum \<Rightarrow> int option" where
  "to_number JUndefined = None"
| "to_number JNull = Some 0"
| "to_number (JNum n) = Some n"
| "to_number JNaN = None"

definition js_arith :: "(int \<Rightarrow> int \<Rightarrow> int) \<Rightarrow> jsnum \<Rightarrow> jsnum \<Rightarrow> jsnum" where
  "js_arith f a b =
     (case to_number a of
        None \<Rightarrow> JNaN
      | Some x \<Rightarrow> (case to_number b of None \<Rightarrow> JNaN | Some y \<Rightarrow> JNum (f x y)))"

definition js_add :: "jsnum \<Rightarrow> jsnum \<Rightarrow> jsnum" where
  "js_add = js_arith (+)"

definition js_sub :: "jsnum \<Rightarrow> jsnum \<Rightarrow> jsnum" where
  "js_sub = js_arith (-)"

definition js_mul :: "jsnum \<Rightarrow> jsnum \<Rightarrow> jsnum" where
  "js_mul = js_arith (*)"

text \<open>\<^verbatim>\<open>a >= b\<close>: false as soon as one side is \<^verbatim>\<open>NaN\<close>.\<close>

definition js_ge :: "jsnum \<Rightarrow> jsnum \<Rightarrow> bool" where
  "js_ge a b =
     (case to_number a of
        None \<Rightarrow> False
      | Some x \<Rightarrow> (case to_number b of None \<Rightarrow> False | Some y \<Rightarrow> y \<le> x))"

record tokens =
  access_token :: "string option"
  refresh_token :: "string option"
  expires_in :: jsnum
  expiry_date :: jsnum

text \<open>
  What \<^verbatim>\<open>JSON.parse(JSON.stringify(tokens, null, 2))\<close> gives back: a key whose value is
  \<^verbatim>\<open>undefined\<close> is left out of the text (and reads as \<^verbatim>\<open>undefined\<close> again), and \<^verbatim>\<open>NaN\<close> is
  written as \<^verbatim>\<open>null\<close>.
\<close>

fun json_num :: "jsnum \<Rightarrow> jsnum" where
  "json_num JNaN = JNull"
| "json_num v = v"

definition json_image :: "tokens \<Rightarrow> tokens" where
  "json_image t =
     t\<lparr>expires_in := json_num (expires_in t), expiry_date := json_num (expiry_date t)\<rparr>"

section \<open>The process state and what it does to the outside\<close>

text \<open>
  The file at \<^verbatim>\<open>TOKEN_PATH\<close>: missing, present but failing to read or to parse
  (\<^verbatim>\<open>readFileSync\<close> or \<^verbatim>\<open>JSON.parse\<close> throws), or holding the JSON text of a token object.
\<close>

datatype file_state = Absent | Corrupt | Stored tokens

text \<open>
  Everything observable is recorded in order: console lines, entries into
  \<^verbatim>\<open>refreshToken\<close>, requests to the upstream token endpoint (grant type and the credential
  sent) and requests to the upstream resource API (URL and bearer token).
\<close>

datatype event =
    Console string
  | EnterRefresh
  | TokenPost string "string option"
  | ApiGet string "string option"

record world =
  hubspotTokens :: "tokens option"
  isProduction :: bool
  token_file :: file_state
  fs_writable :: bool
  events :: "event list"

definition emit :: "event \<Rightarrow> world \<Rightarrow> world" where
  "emit e w = w\<lparr>events := events w @ [e]\<rparr>"

definition console :: "string \<Rightarrow> world \<Rightarrow> world" where
  "console s = emit (Console s)"

text \<open>
  An \<^verbatim>\<open>axios\<close> call either throws (\<open>Rejected\<close>, with \<^verbatim>\<open>error.response.status\<close> when the
  upstream answered with a non-success status, and nothing on a network error) or
  resolves with \<^verbatim>\<open>response.data\<close>.
\<close>

datatype 'd axios_result = Rejected "nat option" | Resolved 'd

text \<open>
  The body of a token-endpoint answer, with the fields the server reads. As
  \<^verbatim>\<open>response.data\<close>, \<open>None\<close> is a \<^verbatim>\<open>null\<close> body (reading a field of it throws); a body
  without a field has \<^verbatim>\<open>undefined\<close> there.
\<close>

record token_response =
  resp_access_token :: "string option"
  resp_refresh_token :: "string option"
  resp_expires_in :: jsnum

type_synonym token_data = "token_response option"

text \<open>
  The body of a resource answer: its \<^verbatim>\<open>results\<close> (or \<^verbatim>\<open>lists\<close>) collection, \<open>None\<close> when
  the field is missing; the outer \<open>None\<close> is a \<^verbatim>\<open>null\<close> body.
\<close>

type_synonym api_data = "string list option option"

datatype reply =
    Json nat string
  | Items nat "string list"
  | Redirect string
  | Send nat string

text \<open>The HTTP status of an answer (\<^verbatim>\<open>res.json\<close> answers 200, \<^verbatim>\<open>res.redirect\<close> 302).\<close>

fun status :: "reply \<Rightarrow> nat" where
  "status (Json n s) = n"
| "status (Items n xs) = 200"
| "status (Redirect u) = 302"
| "status (Send n s) = n"

section \<open>Saving and loading the token file\<close>

text \<open>
  \<^verbatim>\<open>saveTokens\<close>. A failing \<^verbatim>\<open>writeFileSync\<close> (\<open>fs_writable\<close> is false) leaves the file as
  it was; the exception is caught and logged.
\<close>

definition saveTokens :: "tokens \<Rightarrow> world \<Rightarrow> world" where
  "saveTokens tk w =
     (if isProduction w then console ''Running in production, skipping token file save'' w
      else if fs_writable w
        then console ''Tokens saved to file'' (w\<lparr>token_file := Stored (json_image tk)\<rparr>)
        else console ''Error saving tokens to file:'' w)"


section \<open>Refreshing the access token\<close>

text \<open>
  \<^verbatim>\<open>refreshToken\<close>. \<open>now\<close> is the \<^verbatim>\<open>Date.now()\<close> read after the upstream answer, \<open>resp\<close>
  the outcome of the \<^verbatim>\<open>axios.post\<close>, consulted only when the request is made.
\<close>

definition refreshToken :: "int \<Rightarrow> token_data axios_result \<Rightarrow> world \<Rightarrow> bool \<times> world" where
  "refreshToken now resp w =
     (let w0 = emit EnterRefresh w in
      case hubspotTokens w0 of
        None \<Rightarrow> (False, console ''No refresh token available'' w0)
      | Some tk \<Rightarrow>
          if \<not> truthy_str (refresh_token tk)
          then (False, console ''No refresh token available'' w0)
          else
            let w1 = emit (TokenPost ''refresh_token'' (refresh_token tk)) w0 in
            (case resp of
               Rejected st \<Rightarrow>
                 (False,
                  (if st \<noteq> None then console ''Error details:'' else id)
                    (console ''Error refreshing token:'' w1))
             | Resolved None \<Rightarrow> (False, w1)
             | Resolved (Some d) \<Rightarrow>
                 if truthy_str (resp_access_token d) then
                   let tk' = tk\<lparr>access_token := resp_access_token d,
                                 refresh_token := resp_refresh_token d,
                                 expires_in := resp_expires_in d,
                                 expiry_date :=
                                   js_add (JNum now) (js_mul (resp_expires_in d) (JNum 1000))\<rparr>;
                       w2 = saveTokens tk' (w1\<lparr>hubspotTokens := Some tk'\<rparr>)
                   in (True, console ''Token refreshed successfully'' w2)
                 else (False, w1)))"

text \<open>
  Refresh calls one after the other, none interleaved with another: each is given its
  clock reading and the upstream's answer, and runs in the state the previous one left.
\<close>

fun run_refreshes :: "(int \<times> token_data axios_result) list \<Rightarrow> world \<Rightarrow> world" where
  "run_refreshes [] w = w"
| "run_refreshes ((now, resp) # cs) w = run_refreshes cs (snd (refreshToken now resp w))"

section \<open>The OAuth callback\<close>

text \<open>
  \<^verbatim>\<open>GET /oauth/callback\<close>. \<open>code\<close> is \<^verbatim>\<open>req.query.code\<close>. A \<^verbatim>\<open>null\<close> body makes
  \<^verbatim>\<open>response.data.token_type\<close> throw, which the handler's \<^verbatim>\<open>catch\<close> turns into the 500
  answer, as it does a rejected request. The new object has no \<^verbatim>\<open>expires_in\<close> key.
  The text of \<^verbatim>\<open>error.message\<close>, which ends the 500 answer and the console lines, is left
  out.
\<close>

definition oauth_callback ::
  "string option \<Rightarrow> int \<Rightarrow> token_data axios_result \<Rightarrow> world \<Rightarrow> reply \<times> world" where
  "oauth_callback code now resp w =
     (if \<not> truthy_str code then
        (Send 400 ''Authentication failed: No authorization code provided'',
         console ''No code provided in callback'' w)
      else
        let w1 = emit (TokenPost ''authorization_code'' code)
                   (console ''Exchanging authorization code for tokens...'' w) in
        (case resp of
           Rejected st \<Rightarrow>
             (Send 500 ''Authentication failed: '',
              (if st \<noteq> None then console ''OAuth error response:'' else id)
                (console ''Error during OAuth callback:'' w1))
         | Resolved None \<Rightarrow>
             (Send 500 ''Authentication failed: '', console ''Error during OAuth callback:'' w1)
         | Resolved (Some d) \<Rightarrow>
             let w2 = console ''Token exchange successful:'' w1;
                 tk = \<lparr>access_token = resp_access_token d,
                       refresh_token = resp_refresh_token d,
                       expires_in = JUndefined,
                       expiry_date =
                         js_add (JNum now) (js_mul (resp_expires_in d) (JNum 1000))\<rparr>;
                 w3 = saveTokens tk (w2\<lparr>hubspotTokens := Some tk\<rparr>)
             in (Redirect ''/api/hubspot/contacts'', w3)))"

section \<open>The token status query\<close>

record token_status =
  hasToken :: bool
  isExpired :: bool
  action :: string

text \<open>\<^verbatim>\<open>GET /api/hubspot/check-token\<close>, at clock reading \<open>now\<close>.\<close>

definition check_token :: "int \<Rightarrow> world \<Rightarrow> token_status" where
  "check_token now w =
     (let has = (hubspotTokens w \<noteq> None);
          expired =
            (case hubspotTokens w of
               None \<Rightarrow> True
             | Some tk \<Rightarrow>
                 if truthy_num (expiry_date tk) then js_ge (JNum now) (expiry_date tk)
                 else True)
      in \<lparr>hasToken = has, isExpired = expired,
          action = (if has then (if expired then ''refresh needed'' else ''token valid'')
                    else ''authentication needed'')\<rparr>)"

section \<open>The proxied data-fetch handlers\<close>

text \<open>
  \<^verbatim>\<open>GET /api/hubspot/contacts\<close> and \<^verbatim>\<open>GET /api/hubspot/lists\<close> are the same code up to the
  upstream URL, the console line and the \<^verbatim>\<open>error\<close> text of the 500 answer, which are the
  first three arguments here. \<open>now\<close> is the clock read by the expiry check, \<open>now_r\<close> and
  \<open>post\<close> are handed to \<^verbatim>\<open>refreshToken\<close>, and \<open>got\<close> is the outcome of the \<^verbatim>\<open>axios.get\<close>.
  Both are consulted only when the call they belong to is made. Every exception raised
  inside the handler's \<^verbatim>\<open>try\<close> ends in the 500 answer of its \<^verbatim>\<open>catch\<close>.
\<close>

definition upstream_get ::
  "string \<Rightarrow> string \<Rightarrow> string \<Rightarrow> api_data axios_result \<Rightarrow> world \<Rightarrow> reply \<times> world" where
  "upstream_get url errlog errlabel got w =
     (case hubspotTokens w of
        None \<Rightarrow> (Json 500 errlabel, console errlog w)
      | Some tk \<Rightarrow>
          let w1 = emit (ApiGet url (access_token tk)) w in
          (case got of
             Rejected st \<Rightarrow>
               (Json 500 errlabel,
                (if st \<noteq> None then console ''Error details:'' else id) (console errlog w1))
           | Resolved None \<Rightarrow> (Json 500 errlabel, console errlog w1)
           | Resolved (Some r) \<Rightarrow>
               let xs = (case r of None \<Rightarrow> [] | Some ys \<Rightarrow> ys)
               in (Items (length xs) xs, w1)))"

text \<open>
  The expiry check of both handlers:
  \<^verbatim>\<open>hubspotTokens.expiry_date && Date.now() >= hubspotTokens.expiry_date - 5 * 60 * 1000\<close>.
\<close>

definition needs_refresh :: "int \<Rightarrow> tokens \<Rightarrow> bool" where
  "needs_refresh now tk =
     (truthy_num (expiry_date tk) \<and>
      js_ge (JNum now) (js_sub (expiry_date tk) (JNum (5 * 60 * 1000))))"

definition fetch_handler ::
  "string \<Rightarrow> string \<Rightarrow> string \<Rightarrow> int \<Rightarrow> int \<Rightarrow> token_data axios_result \<Rightarrow>
   api_data axios_result \<Rightarrow> world \<Rightarrow> reply \<times> world" where
  "fetch_handler url errlog errlabel now now_r post got w =
     (case hubspotTokens w of
        None \<Rightarrow> (Json 401 ''Authentication required'', w)
      | Some tk \<Rightarrow>
          if \<not> truthy_str (access_token tk) then (Json 401 ''Authentication required'', w)
          else if needs_refresh now tk then
            (case refreshToken now_r post
                    (console ''Token expired or about to expire, refreshing...'' w) of
               (refreshed, w1) \<Rightarrow>
                 if \<not> refreshed then (Json 401 ''Authentication failed'', w1)
                 else upstream_get url errlog errlabel got w1)
          else upstream_get url errlog errlabel got w)"

definition api_contacts ::
  "int \<Rightarrow> int \<Rightarrow> token_data axios_result \<Rightarrow> api_data axios_result \<Rightarrow> world \<Rightarrow> reply \<times> world" where
  "api_contacts =
     fetch_handler ''https://api.hubapi.com/crm/v3/objects/contacts''
       ''Error fetching HubSpot contacts:'' ''Failed to access HubSpot CRM''"

definition api_lists ::
  "int \<Rightarrow> int \<Rightarrow> token_data axios_result \<Rightarrow> api_data axios_result \<Rightarrow> world \<Rightarrow> reply \<times> world" where
  "api_lists =
     fetch_handler ''https://api.hubapi.com/contacts/v1/lists''
       ''Error fetching HubSpot lists:'' ''Failed to access HubSpot lists''"

section \<open>Reading the record of events\<close>

text \<open>What a handler added to the record, and how many refreshes and requests that is.\<close>

definition new_events :: "world \<Rightarrow> world \<Rightarrow> event list" where
  "new_events w w' = drop (length (events w)) (events w')"

fun is_refresh :: "event \<Rightarrow> bool" where
  "is_refresh EnterRefresh = True"
| "is_refresh _ = False"

fun is_token_post :: "event \<Rightarrow> bool" where
  "is_token_post (TokenPost g c) = True"
| "is_token_post _ = False"

fun is_api_get :: "event \<Rightarrow> bool" where
  "is_api_get (ApiGet u b) = True"
| "is_api_get _ = False"

definition refreshes :: "event list \<Rightarrow> nat" where
  "refreshes es = length (filter is_refresh es)"

definition token_posts :: "event list \<Rightarrow> nat" where
  "token_posts es = length (filter is_token_post es)"

definition api_gets :: "event list \<Rightarrow> nat" where
  "api_gets es = length (filter is_api_get es)"

text \<open>The events before the first request to the resource API, and those after it.\<close>

definition before_get :: "event list \<Rightarrow> event list" where
  "before_get es = takeWhile (\<lambda>e. \<not> is_api_get e) es"

definition after_get :: "event list \<Rightarrow> event list" where
  "after_get es = tl (dropWhile (\<lambda>e. \<not> is_api_get e) es)"

text \<open>The console line \<^verbatim>\<open>saveTokens\<close> writes, by the state it runs in.\<close>

definition save_line :: "world \<Rightarrow> string" where
  "save_line w =
     (if isProduction w then ''Running in production, skipping token file save''
      else if fs_writable w then ''Tokens saved to file''
      else ''Error saving tokens to file:'')"

section \<open>Sample states\<close>

text \<open>
  A development process holding a token pair that expires at clock reading 1000000, and
  the upstream answer \<^verbatim>\<open>{access_token: "new123", expires_in: 3600}\<close>, which has no
  \<^verbatim>\<open>refresh_token\<close>.
\<close>

definition sample_tokens :: tokens where
  "sample_tokens =
     \<lparr>access_token = Some ''old456'', refresh_token = Some ''refresh789'',
      expires_in = JUndefined, expiry_date = JNum 1000000\<rparr>"

definition sample_world :: world where
  "sample_world =
     \<lparr>hubspotTokens = Some sample_tokens, isProduction = False, token_file = Absent,
      fs_writable = True, events = []\<rparr>"

definition sample_response :: token_response where
  "sample_response =
     \<lparr>resp_access_token = Some ''new123'', resp_refresh_token = None,
      resp_expires_in = JNum 3600\<rparr>"

text \<open>
  A process with no token, a token-endpoint answer without \<^verbatim>\<open>access_token\<close>, a process
  whose stored pair has \<^verbatim>\<open>expiry_date\<close> 0, and a refresh answer with a lifetime of 60
  seconds.
\<close>

definition empty_world :: world where
  "empty_world =
     \<lparr>hubspotTokens = None, isProduction = False, token_file = Absent,
      fs_writable = True, events = []\<rparr>"

definition bare_response :: token_response where
  "bare_response =
     \<lparr>resp_access_token = None, resp_refresh_token = None, resp_expires_in = JNum 1800\<rparr>"

definition epoch_world :: world where
  "epoch_world =
     \<lparr>hubspotTokens = Some (sample_tokens\<lparr>expiry_date := JNum 0\<rparr>), isProduction = False,
      token_file = Absent, fs_writable = True, events = []\<rparr>"

definition short_response :: token_response where
  "short_response =
     \<lparr>resp_access_token = Some ''new123'', resp_refresh_token = Some ''refresh790'',
      resp_expires_in = JNum 60\<rparr>"



section \<open>Basic facts\<close>

lemma emit_fields [simp]:
  "events (emit e w) = events w @ [e]"
  "hubspotTokens (emit e w) = hubspotTokens w"
  "isProduction (emit e w) = isProduction w"
  "token_file (emit e w) = token_file w"
  "fs_writable (emit e w) = fs_writable w"
  by (simp_all add: emit_def)

lemma console_fields [simp]:
  "events (console s w) = events w @ [Console s]"
  "hubspotTokens (console s w) = hubspotTokens w"
  "isProduction (console s w) = isProduction w"
  "token_file (console s w) = token_file w"
  "fs_writable (console s w) = fs_writable w"
  by (simp_all add: console_def)

lemma saveTokens_fields [simp]:
  "hubspotTokens (saveTokens tk w) = hubspotTokens w"
  "isProduction (saveTokens tk w) = isProduction w"
  "fs_writable (saveTokens tk w) = fs_writable w"
  "events (saveTokens tk w) = events w @ [Console (save_line w)]"
  by (simp_all add: saveTokens_def save_line_def)

lemma saveTokens_file:
  "token_file (saveTokens tk w) =
     (if \<not> isProduction w \<and> fs_writable w then Stored (json_image tk) else token_file w)"
  by (simp add: saveTokens_def)

lemma js_time_arith [simp]:
  "js_add (JNum a) (js_mul (JNum n) (JNum k)) = JNum (a + n * k)"
  "js_sub (JNum a) (JNum b) = JNum (a - b)"
  "js_ge (JNum a) (JNum b) = (b \<le> a)"
  by (simp_all add: js_add_def js_mul_def js_sub_def js_arith_def js_ge_def)

lemma new_events_append [simp]: "events w' = events w @ es \<Longrightarrow> new_events w w' = es"
  by (simp add: new_events_def)

lemma refreshToken_success:
  assumes "hubspotTokens w = Some tk" and "truthy_str (refresh_token tk)"
    and "truthy_str (resp_access_token d)"
  shows "refreshToken now (Resolved (Some d)) w =
    (True, console ''Token refreshed successfully''
       (saveTokens (tk\<lparr>access_token := resp_access_token d,
                        refresh_token := resp_refresh_token d,
                        expires_in := resp_expires_in d,
                        expiry_date := js_add (JNum now) (js_mul (resp_expires_in d) (JNum 1000))\<rparr>)
          ((emit (TokenPost ''refresh_token'' (refresh_token tk)) (emit EnterRefresh w))
             \<lparr>hubspotTokens := Some (tk\<lparr>access_token := resp_access_token d,
                        refresh_token := resp_refresh_token d,
                        expires_in := resp_expires_in d,
                        expiry_date := js_add (JNum now) (js_mul (resp_expires_in d) (JNum 1000))\<rparr>)\<rparr>)))"
  using assms by (simp add: refreshToken_def Let_def)

lemma refreshToken_failure_keeps:
  "\<not> fst (refreshToken now resp w) \<Longrightarrow>
     hubspotTokens (snd (refreshToken now resp w)) = hubspotTokens w \<and>
     token_file (snd (refreshToken now resp w)) = token_file w"
  by (auto simp: refreshToken_def Let_def split: option.splits axios_result.splits if_splits)

lemma refreshToken_true_iff:
  "fst (refreshToken now resp w) \<longleftrightarrow>
     (\<exists>tk d. hubspotTokens w = Some tk \<and> truthy_str (refresh_token tk) \<and>
        resp = Resolved (Some d) \<and> truthy_str (resp_access_token d))"
  by (auto simp: refreshToken_def Let_def split: option.splits axios_result.splits if_splits)

lemma refreshToken_no_token:
  assumes "case hubspotTokens w of None \<Rightarrow> True | Some tk \<Rightarrow> \<not> truthy_str (refresh_token tk)"
  shows "refreshToken now resp w =
           (False, console ''No refresh token available'' (emit EnterRefresh w))"
  using assms by (simp add: refreshToken_def Let_def split: option.splits)

lemma refresh_missing_access_token:
  assumes "resp = Resolved None \<or> (\<exists>d. resp = Resolved (Some d) \<and> \<not> truthy_str (resp_access_token d))"
  shows "\<not> fst (refreshToken now resp w) \<and>
         hubspotTokens (snd (refreshToken now resp w)) = hubspotTokens w \<and>
         token_file (snd (refreshToken now resp w)) = token_file w"
  using assms refreshToken_failure_keeps [of now resp w]
  by (auto simp: refreshToken_true_iff)



lemma refreshToken_fst_console:
  "fst (refreshToken now resp (console s w)) = fst (refreshToken now resp w)"
  by (simp add: refreshToken_true_iff)

lemma needs_refresh_num:
  "expiry_date tk = JNum e \<Longrightarrow> e \<noteq> 0 \<Longrightarrow> needs_refresh now tk \<longleftrightarrow> e - now \<le> 5 * 60 * 1000"
  by (auto simp: needs_refresh_def)

lemma refreshToken_events:
  "\<exists>es. events (snd (refreshToken now resp w)) = events w @ EnterRefresh # es \<and>
        refreshes es = 0 \<and> api_gets es = 0 \<and> token_posts es \<le> 1"
  by (auto simp: refreshToken_def Let_def refreshes_def api_gets_def token_posts_def
      split: option.splits axios_result.splits)

lemma upstream_get_events:
  assumes "hubspotTokens w = Some tk"
  shows "\<exists>es. events (snd (upstream_get url errlog errlabel got w)) =
           events w @ ApiGet url (access_token tk) # es \<and>
         refreshes es = 0 \<and> api_gets es = 0 \<and> token_posts es = 0"
  using assms
  by (auto simp: upstream_get_def Let_def refreshes_def api_gets_def token_posts_def
      split: option.splits axios_result.splits)

lemma upstream_get_rejected:
  "hubspotTokens w = Some tk \<Longrightarrow>
     fst (upstream_get url errlog errlabel (Rejected st) w) = Json 500 errlabel"
  by (simp add: upstream_get_def Let_def)

lemma fetch_no_refresh:
  assumes "hubspotTokens w = Some tk" and "truthy_str (access_token tk)"
    and "\<not> needs_refresh now tk"
  shows "fetch_handler url errlog errlabel now now_r post got w =
           upstream_get url errlog errlabel got w"
  using assms by (simp add: fetch_handler_def)

lemma fetch_refresh_failed:
  assumes "hubspotTokens w = Some tk" and "truthy_str (access_token tk)"
    and "needs_refresh now tk" and "\<not> fst (refreshToken now_r post w)"
  shows "fetch_handler url errlog errlabel now now_r post got w =
           (Json 401 ''Authentication failed'',
            snd (refreshToken now_r post
                   (console ''Token expired or about to expire, refreshing...'' w)))"
  using assms refreshToken_fst_console [of now_r post _ w]
  by (simp add: fetch_handler_def split: prod.splits) (metis fst_conv)

lemma fetch_refresh_ok:
  assumes "hubspotTokens w = Some tk" and "truthy_str (access_token tk)"
    and "needs_refresh now tk" and "fst (refreshToken now_r post w)"
  shows "fetch_handler url errlog errlabel now now_r post got w =
           upstream_get url errlog errlabel got
             (snd (refreshToken now_r post
                     (console ''Token expired or about to expire, refreshing...'' w)))"
  using assms refreshToken_fst_console [of now_r post _ w]
  by (simp add: fetch_handler_def split: prod.splits) (metis fst_conv)

lemma count_append [simp]:
  "refreshes (xs @ ys) = refreshes xs + refreshes ys"
  "token_posts (xs @ ys) = token_posts xs + token_posts ys"
  "api_gets (xs @ ys) = api_gets xs + api_gets ys"
  by (simp_all add: refreshes_def token_posts_def api_gets_def)

lemma count_Cons [simp]:
  "refreshes (e # es) = (if is_refresh e then 1 else 0) + refreshes es"
  "token_posts (e # es) = (if is_token_post e then 1 else 0) + token_posts es"
  "api_gets (e # es) = (if is_api_get e then 1 else 0) + api_gets es"
  by (simp_all add: refreshes_def token_posts_def api_gets_def)

lemma count_Nil [simp]: "refreshes [] = 0" "token_posts [] = 0" "api_gets [] = 0"
  by (simp_all add: refreshes_def token_posts_def api_gets_def)

lemma api_gets_none: "api_gets es = 0 \<longleftrightarrow> (\<forall>e \<in> set es. \<not> is_api_get e)"
  by (simp add: api_gets_def filter_empty_conv)

lemma before_get_none: "api_gets es = 0 \<Longrightarrow> before_get es = es"
  by (simp add: before_get_def api_gets_none)

lemma before_get_split:
  "api_gets es1 = 0 \<Longrightarrow> before_get (es1 @ ApiGet u b # es2) = es1"
  by (simp add: before_get_def api_gets_none)

lemma after_get_split:
  "api_gets es1 = 0 \<Longrightarrow> after_get (es1 @ ApiGet u b # es2) = es2"
  by (simp add: after_get_def api_gets_none)

text \<open>The three ways through a data-fetch handler once a token with an access token is stored.\<close>

lemma fetch_trace:
  assumes tok: "hubspotTokens w = Some tk" and acc: "truthy_str (access_token tk)"
    and r: "r = fetch_handler url errlog errlabel now now_r post got w"
    and es: "es = new_events w (snd r)"
  shows "(\<not> needs_refresh now tk \<longrightarrow>
            (\<exists>es2. es = ApiGet url (access_token tk) # es2 \<and>
               refreshes es2 = 0 \<and> api_gets es2 = 0 \<and> token_posts es2 = 0) \<and>
            (\<forall>st. got = Rejected st \<longrightarrow> fst r = Json 500 errlabel))"
    and "(needs_refresh now tk \<and> \<not> fst (refreshToken now_r post w) \<longrightarrow>
            fst r = Json 401 ''Authentication failed'' \<and>
            (\<exists>es1. es = Console ''Token expired or about to expire, refreshing...'' #
                        EnterRefresh # es1 \<and>
               refreshes es1 = 0 \<and> api_gets es1 = 0 \<and> token_posts es1 \<le> 1))"
    and "(needs_refresh now tk \<and> fst (refreshToken now_r post w) \<longrightarrow>
            (\<exists>es1 es2 b. es = (Console ''Token expired or about to expire, refreshing...'' #
                        EnterRefresh # es1) @ ApiGet url b # es2 \<and>
               refreshes es1 = 0 \<and> api_gets es1 = 0 \<and> token_posts es1 \<le> 1 \<and>
               refreshes es2 = 0 \<and> api_gets es2 = 0 \<and> token_posts es2 = 0) \<and>
            (\<forall>st. got = Rejected st \<longrightarrow> fst r = Json 500 errlabel))"
proof -
  let ?w0 = "console ''Token expired or about to expire, refreshing...'' w"
  show "(\<not> needs_refresh now tk \<longrightarrow>
            (\<exists>es2. es = ApiGet url (access_token tk) # es2 \<and>
               refreshes es2 = 0 \<and> api_gets es2 = 0 \<and> token_posts es2 = 0) \<and>
            (\<forall>st. got = Rejected st \<longrightarrow> fst r = Json 500 errlabel))"
  proof (intro impI)
    assume n: "\<not> needs_refresh now tk"
    have r': "r = upstream_get url errlog errlabel got w"
      using r fetch_no_refresh [OF tok acc n] by simp
    from upstream_get_events [OF tok, of url errlog errlabel got]
    obtain es2 where "events (snd r) = events w @ ApiGet url (access_token tk) # es2"
      and "refreshes es2 = 0" "api_gets es2 = 0" "token_posts es2 = 0"
      unfolding r' by blast
    then show "(\<exists>es2. es = ApiGet url (access_token tk) # es2 \<and>
               refreshes es2 = 0 \<and> api_gets es2 = 0 \<and> token_posts es2 = 0) \<and>
            (\<forall>st. got = Rejected st \<longrightarrow> fst r = Json 500 errlabel)"
      using es r' upstream_get_rejected [OF tok] by (simp add: new_events_def)
  qed
  from refreshToken_events [of now_r post ?w0]
  obtain es1 where e1: "events (snd (refreshToken now_r post ?w0)) =
      events w @ Console ''Token expired or about to expire, refreshing...'' # EnterRefresh # es1"
    and c1: "refreshes es1 = 0" "api_gets es1 = 0" "token_posts es1 \<le> 1"
    by auto
  show "(needs_refresh now tk \<and> \<not> fst (refreshToken now_r post w) \<longrightarrow>
            fst r = Json 401 ''Authentication failed'' \<and>
            (\<exists>es1. es = Console ''Token expired or about to expire, refreshing...'' #
                        EnterRefresh # es1 \<and>
               refreshes es1 = 0 \<and> api_gets es1 = 0 \<and> token_posts es1 \<le> 1))"
  proof (intro impI, elim conjE)
    assume n: "needs_refresh now tk" and f: "\<not> fst (refreshToken now_r post w)"
    have r': "r = (Json 401 ''Authentication failed'', snd (refreshToken now_r post ?w0))"
      using r fetch_refresh_failed [OF tok acc n f] by simp
    show "fst r = Json 401 ''Authentication failed'' \<and>
            (\<exists>es1. es = Console ''Token expired or about to expire, refreshing...'' #
                        EnterRefresh # es1 \<and>
               refreshes es1 = 0 \<and> api_gets es1 = 0 \<and> token_posts es1 \<le> 1)"
      using r' es e1 c1 by (simp add: new_events_def)
  qed
  show "(needs_refresh now tk \<and> fst (refreshToken now_r post w) \<longrightarrow>
            (\<exists>es1 es2 b. es = (Console ''Token expired or about to expire, refreshing...'' #
                        EnterRefresh # es1) @ ApiGet url b # es2 \<and>
               refreshes es1 = 0 \<and> api_gets es1 = 0 \<and> token_posts es1 \<le> 1 \<and>
               refreshes es2 = 0 \<and> api_gets es2 = 0 \<and> token_posts es2 = 0) \<and>
            (\<forall>st. got = Rejected st \<longrightarrow> fst r = Json 500 errlabel))"
  proof (intro impI, elim conjE)
    assume n: "needs_refresh now tk" and f: "fst (refreshToken now_r post w)"
    let ?w1 = "snd (refreshToken now_r post ?w0)"
    have r': "r = upstream_get url errlog errlabel got ?w1"
      using r fetch_refresh_ok [OF tok acc n f] by simp
    from f obtain d where d: "post = Resolved (Some d)"
      and rt: "truthy_str (refresh_token tk)" and at: "truthy_str (resp_access_token d)"
      using tok by (auto simp: refreshToken_true_iff)
    have tok0: "hubspotTokens ?w0 = Some tk" using tok by simp
    obtain tk' where tok1: "hubspotTokens ?w1 = Some tk'"
      unfolding d refreshToken_success [OF tok0 rt at] by simp
    from upstream_get_events [OF tok1, of url errlog errlabel got]
    obtain es2 where e2: "events (snd r) = events ?w1 @ ApiGet url (access_token tk') # es2"
      and c2: "refreshes es2 = 0" "api_gets es2 = 0" "token_posts es2 = 0"
      unfolding r' by blast
    have "es = (Console ''Token expired or about to expire, refreshing...'' #
                        EnterRefresh # es1) @ ApiGet url (access_token tk') # es2"
      using es e2 e1 by (simp add: new_events_def)
    then show "(\<exists>es1 es2 b. es = (Console ''Token expired or about to expire, refreshing...'' #
                        EnterRefresh # es1) @ ApiGet url b # es2 \<and>
               refreshes es1 = 0 \<and> api_gets es1 = 0 \<and> token_posts es1 \<le> 1 \<and>
               refreshes es2 = 0 \<and> api_gets es2 = 0 \<and> token_posts es2 = 0) \<and>
            (\<forall>st. got = Rejected st \<longrightarrow> fst r = Json 500 errlabel)"
      using c1 c2 r' upstream_get_rejected [OF tok1] by auto
  qed
qed

lemma handler_cases:
  assumes "h = api_contacts \<or> h = api_lists"
  obtains url errlog errlabel where "h = fetch_handler url errlog errlabel"
  using assms by (auto simp: api_contacts_def api_lists_def)

section \<open>A refresh answer without a refresh token\<close>

text \<open>
  C1, as the code has it. When the stored pair has a refresh token and the upstream answer
  to a refresh carries an access token and a numeric \<^verbatim>\<open>expires_in\<close> but no
  \<^verbatim>\<open>refresh_token\<close>, the refresh succeeds, the stored \<^verbatim>\<open>expiry_date\<close> is the clock reading
  of the exchange plus \<^verbatim>\<open>expires_in\<close> times 1000 milliseconds, and the stored
  \<^verbatim>\<open>refresh_token\<close> is overwritten with the answer's missing value: the previous refresh
  token is not retained.
\<close>

theorem refresh_omitted_refresh_token:
  assumes "hubspotTokens w = Some tk" and "truthy_str (refresh_token tk)"
    and "truthy_str (resp_access_token d)" and "resp_refresh_token d = None"
    and "resp_expires_in d = JNum n"
  shows "fst (refreshToken now (Resolved (Some d)) w) \<and>
         hubspotTokens (snd (refreshToken now (Resolved (Some d)) w)) =
           Some (tk\<lparr>access_token := resp_access_token d, refresh_token := None,
                    expires_in := JNum n, expiry_date := JNum (now + n * 1000)\<rparr>)"
  using assms by (simp add: refreshToken_success)

theorem refresh_omitted_refresh_token_witness:
  "hubspotTokens sample_world = Some sample_tokens \<and>
   truthy_str (refresh_token sample_tokens) \<and>
   truthy_str (resp_access_token sample_response) \<and>
   resp_refresh_token sample_response = None \<and>
   resp_expires_in sample_response = JNum 3600 \<and>
   fst (refreshToken 2000000 (Resolved (Some sample_response)) sample_world) \<and>
   hubspotTokens (snd (refreshToken 2000000 (Resolved (Some sample_response)) sample_world)) =
     Some \<lparr>access_token = Some ''new123'', refresh_token = None,
           expires_in = JNum 3600, expiry_date = JNum 5600000\<rparr>"
  using refresh_omitted_refresh_token
    [of sample_world sample_tokens sample_response 3600 2000000]
  by (simp add: sample_world_def sample_tokens_def sample_response_def)

text \<open>
  The claim as the specification states it fails: after the sample answer at clock
  reading 2000000 the stored refresh token is no longer the previous one.
\<close>

theorem refresh_token_not_retained:
  "refresh_token sample_tokens = Some ''refresh789'' \<and>
   map_option refresh_token
     (hubspotTokens (snd (refreshToken 2000000 (Resolved (Some sample_response)) sample_world)))
     = Some None"
  by (simp add: refreshToken_def Let_def sample_world_def sample_tokens_def
      sample_response_def)

section \<open>No reactive refresh in the data-fetch handlers\<close>

text \<open>
  C2, as the code has it. Take either data-fetch handler, a stored pair with an access
  token, and token preconditions that pass (no refresh is due, or the proactive refresh
  succeeds). When the upstream request is then rejected, with status 401 or any other
  way, the handler answers 500 after that single request: nothing it does after the
  request is a call of \<^verbatim>\<open>refreshToken\<close>, a request to the token endpoint or a second
  request to the resource API. There is no reactive refresh and no retry, so never more
  than one retry.
\<close>

theorem fetch_rejected_no_retry:
  assumes "h = api_contacts \<or> h = api_lists"
    and "hubspotTokens w = Some tk" and "truthy_str (access_token tk)"
    and "\<not> needs_refresh now tk \<or> fst (refreshToken now_r post w)"
    and "r = h now now_r post (Rejected st) w"
    and "es = new_events w (snd r)"
  shows "status (fst r) = 500 \<and> api_gets es = 1 \<and>
         refreshes (after_get es) = 0 \<and> token_posts (after_get es) = 0 \<and>
         api_gets (after_get es) = 0"
proof -
  from assms(1) obtain url errlog errlabel where h: "h = fetch_handler url errlog errlabel"
    by (rule handler_cases)
  have r: "r = fetch_handler url errlog errlabel now now_r post (Rejected st) w"
    using assms(5) h by simp
  note tr = fetch_trace [OF assms(2,3) r assms(6)]
  show ?thesis
  proof (cases "needs_refresh now tk")
    case False
    with tr(1) obtain es2 where "es = [] @ ApiGet url (access_token tk) # es2"
      and "refreshes es2 = 0" "api_gets es2 = 0" "token_posts es2 = 0"
      and "fst r = Json 500 errlabel" by auto
    then show ?thesis by (simp add: after_get_split del: append_Nil)
  next
    case True
    with assms(4) have "fst (refreshToken now_r post w)" by simp
    with True tr(3) obtain es1 es2 b where
      "es = (Console ''Token expired or about to expire, refreshing...'' #
               EnterRefresh # es1) @ ApiGet url b # es2"
      and "refreshes es1 = 0" "api_gets es1 = 0"
      and "refreshes es2 = 0" "api_gets es2 = 0" "token_posts es2 = 0"
      and "fst r = Json 500 errlabel" by auto
    then show ?thesis by (simp add: after_get_split del: append_Cons)
  qed
qed

theorem fetch_rejected_no_retry_witness:
  "hubspotTokens sample_world = Some sample_tokens \<and>
   truthy_str (access_token sample_tokens) \<and>
   fst (refreshToken 800000 (Resolved (Some sample_response)) sample_world) \<and>
   status (fst (api_lists 800000 800000 (Resolved (Some sample_response))
                  (Rejected (Some 401)) sample_world)) = 500 \<and>
   api_gets (new_events sample_world
     (snd (api_lists 800000 800000 (Resolved (Some sample_response))
             (Rejected (Some 401)) sample_world))) = 1 \<and>
   refreshes (after_get (new_events sample_world
     (snd (api_lists 800000 800000 (Resolved (Some sample_response))
             (Rejected (Some 401)) sample_world)))) = 0"
proof -
  have h1: "hubspotTokens sample_world = Some sample_tokens"
    by (simp add: sample_world_def)
  have h2: "truthy_str (access_token sample_tokens)"
    by (simp add: sample_tokens_def)
  have h3: "fst (refreshToken 800000 (Resolved (Some sample_response)) sample_world)"
    by (simp add: refreshToken_true_iff sample_world_def sample_tokens_def
        sample_response_def)
  from fetch_rejected_no_retry [OF disjI2 [OF refl] h1 h2 disjI2 [OF h3] refl refl,
      of 800000 "Some 401"] h1 h2 h3
  show ?thesis by blast
qed

text \<open>
  The claim as the specification states it fails: with a pair that is not due for
  refresh and an upstream that answers 401, both handlers answer 500 after one request
  and without any refresh, although the token endpoint would have granted one.
\<close>

theorem no_reactive_refresh_on_401:
  "status (fst (api_contacts 0 0 (Resolved (Some sample_response)) (Rejected (Some 401))
      sample_world)) = 500 \<and>
   refreshes (new_events sample_world
     (snd (api_contacts 0 0 (Resolved (Some sample_response)) (Rejected (Some 401))
        sample_world))) = 0 \<and>
   api_gets (new_events sample_world
     (snd (api_contacts 0 0 (Resolved (Some sample_response)) (Rejected (Some 401))
        sample_world))) = 1 \<and>
   status (fst (api_lists 0 0 (Resolved (Some sample_response)) (Rejected (Some 401))
      sample_world)) = 500 \<and>
   refreshes (new_events sample_world
     (snd (api_lists 0 0 (Resolved (Some sample_response)) (Rejected (Some 401))
        sample_world))) = 0 \<and>
   api_gets (new_events sample_world
     (snd (api_lists 0 0 (Resolved (Some sample_response)) (Rejected (Some 401))
        sample_world))) = 1"
  by (simp add: api_contacts_def api_lists_def fetch_handler_def upstream_get_def
      needs_refresh_def Let_def sample_world_def sample_tokens_def new_events_def)

section \<open>A token-endpoint answer without an access token\<close>

text \<open>
  C3, at the failing input. The callback is given the code \<^verbatim>\<open>abc\<close> and the token endpoint
  answers with success and the body \<^verbatim>\<open>{expires_in: 1800}\<close>, at clock reading 2000000, in a
  process with no token. The callback answers with the redirect of a successful
  authentication, and a pair without access token is stored in memory and written to the
  token file. (\<^verbatim>\<open>refreshToken\<close> checks \<^verbatim>\<open>response.data.access_token\<close> and stores nothing in
  that case: lemma \<open>refresh_missing_access_token\<close>.)
\<close>

theorem callback_stores_without_access_token:
  "fst (oauth_callback (Some ''abc'') 2000000 (Resolved (Some bare_response)) empty_world) =
     Redirect ''/api/hubspot/contacts'' \<and>
   hubspotTokens
     (snd (oauth_callback (Some ''abc'') 2000000 (Resolved (Some bare_response)) empty_world)) =
     Some \<lparr>access_token = None, refresh_token = None, expires_in = JUndefined,
           expiry_date = JNum 3800000\<rparr> \<and>
   token_file
     (snd (oauth_callback (Some ''abc'') 2000000 (Resolved (Some bare_response)) empty_world)) =
     Stored \<lparr>access_token = None, refresh_token = None, expires_in = JUndefined,
             expiry_date = JNum 3800000\<rparr>"
  by (simp add: oauth_callback_def Let_def empty_world_def bare_response_def
      saveTokens_file json_image_def)

section \<open>The proactive refresh and its margin of five minutes\<close>

text \<open>
  C4, as the code has it. Take either data-fetch handler and a stored pair with an access
  token and a numeric \<^verbatim>\<open>expiry_date\<close> other than 0. When the expiry is more than 5 minutes
  after the clock reading, the handler calls no refresh and makes no request to the token
  endpoint before its one request to the resource API. When the expiry is 5 minutes or
  less after the clock reading, \<^verbatim>\<open>refreshToken\<close> is called exactly once, before any request
  to the resource API; when that refresh succeeds the request follows, and when it fails
  the handler answers 401 \<^verbatim>\<open>Authentication failed\<close> without a request.
\<close>

theorem proactive_refresh_margin:
  assumes "h = api_contacts \<or> h = api_lists"
    and "hubspotTokens w = Some tk" and "truthy_str (access_token tk)"
    and "expiry_date tk = JNum e" and "e \<noteq> 0"
    and "r = h now now_r post got w"
    and "es = new_events w (snd r)"
  shows "(5 * 60 * 1000 < e - now \<longrightarrow>
            refreshes es = 0 \<and> token_posts es = 0 \<and> api_gets es = 1) \<and>
         (e - now \<le> 5 * 60 * 1000 \<longrightarrow>
            refreshes es = 1 \<and> refreshes (before_get es) = 1 \<and>
            (fst (refreshToken now_r post w) \<longrightarrow> api_gets es = 1) \<and>
            (\<not> fst (refreshToken now_r post w) \<longrightarrow>
               fst r = Json 401 ''Authentication failed'' \<and> api_gets es = 0))"
proof -
  from assms(1) obtain url errlog errlabel where h: "h = fetch_handler url errlog errlabel"
    by (rule handler_cases)
  have r: "r = fetch_handler url errlog errlabel now now_r post got w"
    using assms(6) h by simp
  note tr = fetch_trace [OF assms(2,3) r assms(7)]
  note nr = needs_refresh_num [OF assms(4,5), of now]
  have far: "refreshes es = 0 \<and> token_posts es = 0 \<and> api_gets es = 1"
    if "5 * 60 * 1000 < e - now"
  proof -
    from that nr have "\<not> needs_refresh now tk" by simp
    with tr(1) show ?thesis by auto
  qed
  have near: "refreshes es = 1 \<and> refreshes (before_get es) = 1 \<and>
            (fst (refreshToken now_r post w) \<longrightarrow> api_gets es = 1) \<and>
            (\<not> fst (refreshToken now_r post w) \<longrightarrow>
               fst r = Json 401 ''Authentication failed'' \<and> api_gets es = 0)"
    if "e - now \<le> 5 * 60 * 1000"
  proof (cases "fst (refreshToken now_r post w)")
    case True
    from that nr have "needs_refresh now tk" by simp
    with True tr(3) obtain es1 es2 b where
      "es = (Console ''Token expired or about to expire, refreshing...'' #
               EnterRefresh # es1) @ ApiGet url b # es2"
      and "refreshes es1 = 0" "api_gets es1 = 0"
      and "refreshes es2 = 0" "api_gets es2 = 0" by auto
    with True show ?thesis by (simp add: before_get_split del: append_Cons)
  next
    case False
    from that nr have "needs_refresh now tk" by simp
    with False tr(2) obtain es1 where
      "es = Console ''Token expired or about to expire, refreshing...'' # EnterRefresh # es1"
      and "refreshes es1 = 0" "api_gets es1 = 0"
      and "fst r = Json 401 ''Authentication failed''" by auto
    with False show ?thesis by (simp add: before_get_none)
  qed
  from far near show ?thesis by blast
qed

theorem proactive_refresh_margin_witness:
  "hubspotTokens sample_world = Some sample_tokens \<and>
   truthy_str (access_token sample_tokens) \<and>
   expiry_date sample_tokens = JNum 1000000 \<and>
   refreshes (new_events sample_world
     (snd (api_contacts 400000 400000 (Rejected None) (Resolved (Some (Some [])))
             sample_world))) = 0 \<and>
   api_gets (new_events sample_world
     (snd (api_contacts 400000 400000 (Rejected None) (Resolved (Some (Some [])))
             sample_world))) = 1 \<and>
   refreshes (new_events sample_world
     (snd (api_lists 880000 880000 (Rejected None) (Resolved (Some (Some [])))
             sample_world))) = 1 \<and>
   fst (api_lists 880000 880000 (Rejected None) (Resolved (Some (Some []))) sample_world) =
     Json 401 ''Authentication failed''"
proof -
  have h1: "hubspotTokens sample_world = Some sample_tokens"
    by (simp add: sample_world_def)
  have h2: "truthy_str (access_token sample_tokens)"
    by (simp add: sample_tokens_def)
  have h3: "expiry_date sample_tokens = JNum 1000000"
    by (simp add: sample_tokens_def)
  have h4: "(1000000::int) \<noteq> 0" by simp
  have far: "5 * 60 * 1000 < (1000000::int) - 400000" by simp
  have near: "(1000000::int) - 880000 \<le> 5 * 60 * 1000" by simp
  have failed: "\<not> fst (refreshToken 880000 (Rejected None) sample_world)"
    by (simp add: refreshToken_true_iff)
  from proactive_refresh_margin [OF disjI1 [OF refl] h1 h2 h3 h4 refl refl,
      of 400000 400000 "Rejected None" "Resolved (Some (Some []))"]
    proactive_refresh_margin [OF disjI2 [OF refl] h1 h2 h3 h4 refl refl,
      of 880000 880000 "Rejected None" "Resolved (Some (Some []))"]
    h1 h2 h3 far near failed
  show ?thesis by blast
qed

text \<open>
  The claim as the specification states it fails at \<^verbatim>\<open>expiry_date\<close> 0: at clock reading
  1000 that expiry is less than 5 minutes ahead (it is past), yet the guard
  \<^verbatim>\<open>hubspotTokens.expiry_date && ...\<close> reads 0 as no expiry date, no refresh is called and
  the request goes out with the stored access token.
\<close>

theorem epoch_expiry_not_refreshed:
  "hubspotTokens epoch_world = Some (sample_tokens\<lparr>expiry_date := JNum 0\<rparr>) \<and>
   (0::int) - 1000 \<le> 5 * 60 * 1000 \<and>
   needs_refresh 1000 (sample_tokens\<lparr>expiry_date := JNum 0\<rparr>) = False \<and>
   refreshes (new_events epoch_world
     (snd (api_contacts 1000 1000 (Resolved (Some sample_response)) (Resolved (Some (Some [])))
        epoch_world))) = 0 \<and>
   fst (api_contacts 1000 1000 (Resolved (Some sample_response)) (Resolved (Some (Some [])))
        epoch_world) = Items 0 []"
  by (simp add: api_contacts_def fetch_handler_def upstream_get_def
      needs_refresh_def Let_def epoch_world_def sample_tokens_def new_events_def)

section \<open>What a refresh does to the expiry\<close>

text \<open>
  C5, as the code has it. In the state reached by any sequence of refresh calls, a further
  refresh that fails leaves the stored pair and the token file as they were, and one that
  succeeds sets \<^verbatim>\<open>expiry_date\<close> to the clock reading of the exchange plus 1000 times the
  answer's \<^verbatim>\<open>expires_in\<close>, whatever the previous expiry was. The new expiry is later than
  the previous one when the previous one is earlier than that sum; the code compares
  neither.
\<close>

theorem refresh_step_expiry:
  assumes "w1 = run_refreshes cs w" and "r = refreshToken now resp w1"
  shows "(\<not> fst r \<longrightarrow>
            hubspotTokens (snd r) = hubspotTokens w1 \<and> token_file (snd r) = token_file w1) \<and>
         (fst r \<longrightarrow>
            (\<exists>tk d. hubspotTokens w1 = Some tk \<and> resp = Resolved (Some d) \<and>
               map_option expiry_date (hubspotTokens (snd r)) =
                 Some (js_add (JNum now) (js_mul (resp_expires_in d) (JNum 1000))))) \<and>
         (fst r \<and> hubspotTokens w1 = Some tk \<and> expiry_date tk = JNum e \<and>
          resp = Resolved (Some d) \<and> resp_expires_in d = JNum n \<and> e < now + n * 1000 \<longrightarrow>
            (\<exists>e'. map_option expiry_date (hubspotTokens (snd r)) = Some (JNum e') \<and> e < e'))"
proof -
  have keep: "hubspotTokens (snd r) = hubspotTokens w1 \<and> token_file (snd r) = token_file w1"
    if "\<not> fst r"
    using that assms(2) refreshToken_failure_keeps [of now resp w1] by simp
  have move: "\<exists>tk d. hubspotTokens w1 = Some tk \<and> resp = Resolved (Some d) \<and>
               map_option expiry_date (hubspotTokens (snd r)) =
                 Some (js_add (JNum now) (js_mul (resp_expires_in d) (JNum 1000)))"
    if "fst r"
  proof -
    from that obtain tk d where "hubspotTokens w1 = Some tk" "truthy_str (refresh_token tk)"
      "resp = Resolved (Some d)" "truthy_str (resp_access_token d)"
      using assms(2) by (auto simp: refreshToken_true_iff)
    then show ?thesis using assms(2) by (simp add: refreshToken_success)
  qed
  have forward: "\<exists>e'. map_option expiry_date (hubspotTokens (snd r)) = Some (JNum e') \<and> e < e'"
    if a: "fst r \<and> hubspotTokens w1 = Some tk \<and> expiry_date tk = JNum e \<and>
          resp = Resolved (Some d) \<and> resp_expires_in d = JNum n \<and> e < now + n * 1000"
  proof -
    from a have "truthy_str (refresh_token tk)" "truthy_str (resp_access_token d)"
      using assms(2) by (auto simp: refreshToken_true_iff)
    with a show ?thesis using assms(2) by (simp add: refreshToken_success)
  qed
  from keep move forward show ?thesis by blast
qed

theorem refresh_step_expiry_witness:
  "fst (refreshToken 950000 (Resolved (Some sample_response))
          (run_refreshes [(900000, Resolved (Some short_response))] sample_world)) \<and>
   hubspotTokens (run_refreshes [(900000, Resolved (Some short_response))] sample_world) =
     Some \<lparr>access_token = Some ''new123'', refresh_token = Some ''refresh790'',
           expires_in = JNum 60, expiry_date = JNum 960000\<rparr> \<and>
   (\<exists>e'. map_option expiry_date
            (hubspotTokens
              (snd (refreshToken 950000 (Resolved (Some sample_response))
                      (run_refreshes [(900000, Resolved (Some short_response))]
                         sample_world)))) = Some (JNum e') \<and>
         960000 < e')"
proof -
  let ?w1 = "run_refreshes [(900000, Resolved (Some short_response))] sample_world"
  let ?tk = "\<lparr>access_token = Some ''new123'', refresh_token = Some ''refresh790'',
           expires_in = JNum 60, expiry_date = JNum 960000\<rparr>"
  have h1: "hubspotTokens ?w1 = Some ?tk"
    by (simp add: refreshToken_def Let_def sample_world_def sample_tokens_def
        short_response_def)
  have h2: "fst (refreshToken 950000 (Resolved (Some sample_response)) ?w1)"
    using h1 by (simp add: refreshToken_true_iff sample_response_def)
  have h3: "expiry_date ?tk = JNum 960000" by simp
  have h4: "resp_expires_in sample_response = JNum 3600"
    by (simp add: sample_response_def)
  have h5: "(960000::int) < 950000 + 3600 * 1000" by simp
  from refresh_step_expiry [OF refl refl,
      of 950000 "Resolved (Some sample_response)"
         "[(900000, Resolved (Some short_response))]" sample_world ?tk 960000
         sample_response 3600]
    h1 h2 h3 h4 h5
  show ?thesis by blast
qed

text \<open>
  The claim as the specification states it fails: the sample pair expires at 1000000; a
  refresh at clock reading 900000 that is answered with a lifetime of 60 seconds succeeds
  and moves the expiry back to 960000.
\<close>

theorem refresh_expiry_regresses:
  "expiry_date sample_tokens = JNum 1000000 \<and>
   fst (refreshToken 900000 (Resolved (Some short_response)) sample_world) \<and>
   map_option expiry_date
     (hubspotTokens (snd (refreshToken 900000 (Resolved (Some short_response)) sample_world)))
     = Some (JNum 960000)"
  by (simp add: refreshToken_def Let_def sample_world_def sample_tokens_def
      short_response_def)

section \<open>Refresh without a refresh token\<close>

text \<open>
  C6. When no token object is stored, or the stored one has no refresh token, a call of
  \<^verbatim>\<open>refreshToken\<close> returns false whatever the upstream would answer; all it does is write
  one console line: no request to the token endpoint or to the resource API is made,
  and the stored pair and the token file stay as they were.
\<close>

theorem refresh_without_refresh_token:
  assumes "case hubspotTokens w of None \<Rightarrow> True | Some tk \<Rightarrow> \<not> truthy_str (refresh_token tk)"
  shows "\<not> fst (refreshToken now resp w) \<and>
         new_events w (snd (refreshToken now resp w)) =
           [EnterRefresh, Console ''No refresh token available''] \<and>
         token_posts (new_events w (snd (refreshToken now resp w))) = 0 \<and>
         api_gets (new_events w (snd (refreshToken now resp w))) = 0 \<and>
         hubspotTokens (snd (refreshToken now resp w)) = hubspotTokens w \<and>
         token_file (snd (refreshToken now resp w)) = token_file w"
  using assms by (simp add: refreshToken_no_token token_posts_def api_gets_def)

theorem refresh_without_refresh_token_witness:
  "(case hubspotTokens empty_world of None \<Rightarrow> True
    | Some tk \<Rightarrow> \<not> truthy_str (refresh_token tk)) \<and>
   \<not> fst (refreshToken 2000000 (Resolved (Some sample_response)) empty_world) \<and>
   token_posts (new_events empty_world
     (snd (refreshToken 2000000 (Resolved (Some sample_response)) empty_world))) = 0"
proof -
  have h: "case hubspotTokens empty_world of None \<Rightarrow> True
    | Some tk \<Rightarrow> \<not> truthy_str (refresh_token tk)"
    by (simp add: empty_world_def)
  from refresh_without_refresh_token [OF h, of 2000000 "Resolved (Some sample_response)"] h
  show ?thesis by blast
qed

section \<open>The callback and the authorization code\<close>

text \<open>
  C7. Without an authorization code the callback answers 400 and does nothing but write
  one console line: no request to the token endpoint, and the stored pair and the token
  file stay as they were. With a code and a token endpoint that answers with success and
  a body, the callback makes exactly one request to the token endpoint, writes the pair
  built from the answer into the store, and redirects to the contacts view. Writing into
  the store is the assignment to \<^verbatim>\<open>hubspotTokens\<close> followed by \<^verbatim>\<open>saveTokens\<close>: the pair
  is held in memory, and in a development process whose write succeeds the token file
  holds it too, while in production or when the write fails the file stays as it was and
  a console line says so. With a code and an exchange that is rejected or answers with a
  \<^verbatim>\<open>null\<close> body, the callback answers 500 after its one request and leaves memory and
  file as they were.
\<close>

theorem callback_code:
  "(\<not> truthy_str code \<longrightarrow>
      fst (oauth_callback code now resp w) =
        Send 400 ''Authentication failed: No authorization code provided'' \<and>
      new_events w (snd (oauth_callback code now resp w)) =
        [Console ''No code provided in callback''] \<and>
      token_posts (new_events w (snd (oauth_callback code now resp w))) = 0 \<and>
      hubspotTokens (snd (oauth_callback code now resp w)) = hubspotTokens w \<and>
      token_file (snd (oauth_callback code now resp w)) = token_file w) \<and>
   (truthy_str code \<and> resp = Resolved (Some d) \<and>
    tk = \<lparr>access_token = resp_access_token d, refresh_token = resp_refresh_token d,
          expires_in = JUndefined,
          expiry_date = js_add (JNum now) (js_mul (resp_expires_in d) (JNum 1000))\<rparr> \<longrightarrow>
      fst (oauth_callback code now resp w) = Redirect ''/api/hubspot/contacts'' \<and>
      new_events w (snd (oauth_callback code now resp w)) =
        [Console ''Exchanging authorization code for tokens...'',
         TokenPost ''authorization_code'' code,
         Console ''Token exchange successful:'',
         Console (if isProduction w then ''Running in production, skipping token file save''
                  else if fs_writable w then ''Tokens saved to file''
                  else ''Error saving tokens to file:'')] \<and>
      token_posts (new_events w (snd (oauth_callback code now resp w))) = 1 \<and>
      hubspotTokens (snd (oauth_callback code now resp w)) = Some tk \<and>
      (\<not> isProduction w \<and> fs_writable w \<longrightarrow>
         token_file (snd (oauth_callback code now resp w)) = Stored (json_image tk)) \<and>
      (isProduction w \<or> \<not> fs_writable w \<longrightarrow>
         token_file (snd (oauth_callback code now resp w)) = token_file w)) \<and>
   (truthy_str code \<and> (resp = Rejected st \<or> resp = Resolved None) \<longrightarrow>
      status (fst (oauth_callback code now resp w)) = 500 \<and>
      token_posts (new_events w (snd (oauth_callback code now resp w))) = 1 \<and>
      hubspotTokens (snd (oauth_callback code now resp w)) = hubspotTokens w \<and>
      token_file (snd (oauth_callback code now resp w)) = token_file w)"
  by (auto simp: oauth_callback_def Let_def saveTokens_file save_line_def)

theorem callback_code_witness:
  "fst (oauth_callback None 2000000 (Resolved (Some sample_response)) empty_world) =
     Send 400 ''Authentication failed: No authorization code provided'' \<and>
   token_posts (new_events empty_world
     (snd (oauth_callback None 2000000 (Resolved (Some sample_response)) empty_world))) = 0 \<and>
   hubspotTokens
     (snd (oauth_callback None 2000000 (Resolved (Some sample_response)) empty_world)) =
     hubspotTokens empty_world \<and>
   fst (oauth_callback (Some ''abc'') 2000000 (Resolved (Some sample_response)) empty_world) =
     Redirect ''/api/hubspot/contacts'' \<and>
   hubspotTokens
     (snd (oauth_callback (Some ''abc'') 2000000 (Resolved (Some sample_response))
             empty_world)) =
     Some \<lparr>access_token = Some ''new123'', refresh_token = None, expires_in = JUndefined,
           expiry_date = JNum 5600000\<rparr> \<and>
   token_file
     (snd (oauth_callback (Some ''abc'') 2000000 (Resolved (Some sample_response))
             empty_world)) =
     Stored \<lparr>access_token = Some ''new123'', refresh_token = None, expires_in = JUndefined,
             expiry_date = JNum 5600000\<rparr>"
proof -
  let ?tk = "\<lparr>access_token = Some ''new123'', refresh_token = None, expires_in = JUndefined,
           expiry_date = JNum 5600000\<rparr>"
  have h1: "\<not> truthy_str None" by simp
  have h2: "truthy_str (Some ''abc'')" by simp
  have h3: "?tk = \<lparr>access_token = resp_access_token sample_response,
          refresh_token = resp_refresh_token sample_response,
          expires_in = JUndefined,
          expiry_date =
            js_add (JNum 2000000) (js_mul (resp_expires_in sample_response) (JNum 1000))\<rparr>"
    by (simp add: sample_response_def)
  have h4: "\<not> isProduction empty_world \<and> fs_writable empty_world"
    by (simp add: empty_world_def)
  have h5: "json_image ?tk = ?tk" by (simp add: json_image_def)
  from callback_code [of None 2000000 "Resolved (Some sample_response)" empty_world
      sample_response ?tk None]
    callback_code [of "Some ''abc''" 2000000 "Resolved (Some sample_response)" empty_world
      sample_response ?tk None]
    h1 h2 h3 h4 h5
  show ?thesis by metis
qed

section \<open>Persistence that fails or is switched off\<close>

text \<open>
  C8. Setting a pair is the assignment to \<^verbatim>\<open>hubspotTokens\<close> followed by \<^verbatim>\<open>saveTokens\<close>.
  When the process runs in production (no file is written) or the write fails, the
  in-memory pair is the newly set one, the token file is as it was, and all that
  \<^verbatim>\<open>saveTokens\<close> does is write one console line. The operation that sets the pair still
  succeeds: a refresh with a good answer returns true and holds the new pair.
\<close>

theorem persistence_failure_not_fatal:
  assumes "isProduction w \<or> \<not> fs_writable w"
  shows "hubspotTokens (saveTokens tk (w\<lparr>hubspotTokens := Some tk\<rparr>)) = Some tk \<and>
         token_file (saveTokens tk (w\<lparr>hubspotTokens := Some tk\<rparr>)) = token_file w \<and>
         new_events w (saveTokens tk (w\<lparr>hubspotTokens := Some tk\<rparr>)) =
           [Console (if isProduction w
                     then ''Running in production, skipping token file save''
                     else ''Error saving tokens to file:'')] \<and>
         (hubspotTokens w = Some tk0 \<and> truthy_str (refresh_token tk0) \<and>
          truthy_str (resp_access_token d) \<longrightarrow>
            fst (refreshToken now (Resolved (Some d)) w) \<and>
            hubspotTokens (snd (refreshToken now (Resolved (Some d)) w)) =
              Some (tk0\<lparr>access_token := resp_access_token d,
                        refresh_token := resp_refresh_token d,
                        expires_in := resp_expires_in d,
                        expiry_date :=
                          js_add (JNum now) (js_mul (resp_expires_in d) (JNum 1000))\<rparr>) \<and>
            token_file (snd (refreshToken now (Resolved (Some d)) w)) = token_file w)"
  using assms
  by (auto simp: saveTokens_file save_line_def refreshToken_success)

theorem persistence_failure_not_fatal_witness:
  "\<not> fs_writable (sample_world\<lparr>fs_writable := False\<rparr>) \<and>
   hubspotTokens (saveTokens (sample_tokens\<lparr>access_token := Some ''new123''\<rparr>)
     (sample_world\<lparr>fs_writable := False,
        hubspotTokens := Some (sample_tokens\<lparr>access_token := Some ''new123''\<rparr>)\<rparr>)) =
     Some (sample_tokens\<lparr>access_token := Some ''new123''\<rparr>) \<and>
   new_events (sample_world\<lparr>fs_writable := False\<rparr>)
     (saveTokens (sample_tokens\<lparr>access_token := Some ''new123''\<rparr>)
       (sample_world\<lparr>fs_writable := False,
          hubspotTokens := Some (sample_tokens\<lparr>access_token := Some ''new123''\<rparr>)\<rparr>)) =
     [Console ''Error saving tokens to file:'']"
proof -
  have h: "isProduction (sample_world\<lparr>fs_writable := False\<rparr>) \<or>
           \<not> fs_writable (sample_world\<lparr>fs_writable := False\<rparr>)"
    by simp
  have p: "\<not> isProduction (sample_world\<lparr>fs_writable := False\<rparr>)"
    by (simp add: sample_world_def)
  from persistence_failure_not_fatal [OF h,
      of "sample_tokens\<lparr>access_token := Some ''new123''\<rparr>" sample_tokens sample_response 0] p
  show ?thesis by simp
qed

section \<open>Saving, then loading at the next start\<close>




section \<open>The token status query and the exact expiry instant\<close>

text \<open>
  C10. The status query reports \<^verbatim>\<open>isExpired\<close> true when no token object is stored and when
  the stored one has no (or a falsy) \<^verbatim>\<open>expiry_date\<close>; otherwise it reports
  \<^verbatim>\<open>Date.now() >= expiry_date\<close>. For a numeric expiry other than 0 that is \<open>e \<le> now\<close>, the
  exact instant, whereas the data-fetch handlers ask for a refresh from \<open>e - 300000 \<le> now\<close>
  on, 5 minutes earlier.
\<close>

theorem check_token_expiry:
  "(hubspotTokens w = None \<longrightarrow>
      isExpired (check_token now w) \<and> \<not> hasToken (check_token now w)) \<and>
   (hubspotTokens w = Some tk \<and> \<not> truthy_num (expiry_date tk) \<longrightarrow>
      isExpired (check_token now w)) \<and>
   (hubspotTokens w = Some tk \<and> truthy_num (expiry_date tk) \<longrightarrow>
      isExpired (check_token now w) = js_ge (JNum now) (expiry_date tk)) \<and>
   (hubspotTokens w = Some tk \<and> expiry_date tk = JNum e \<and> e \<noteq> 0 \<longrightarrow>
      isExpired (check_token now w) = (e \<le> now) \<and>
      needs_refresh now tk = (e - 5 * 60 * 1000 \<le> now))"
  by (simp add: check_token_def needs_refresh_def Let_def)

theorem check_token_expiry_witness:
  "isExpired (check_token 800000 empty_world) \<and>
   \<not> hasToken (check_token 800000 empty_world) \<and>
   isExpired (check_token 800000 sample_world) = ((1000000::int) \<le> 800000) \<and>
   needs_refresh 800000 sample_tokens = ((1000000::int) - 5 * 60 * 1000 \<le> 800000)"
proof -
  have h1: "hubspotTokens empty_world = None" by (simp add: empty_world_def)
  have h2: "hubspotTokens sample_world = Some sample_tokens \<and>
            expiry_date sample_tokens = JNum 1000000 \<and> (1000000::int) \<noteq> 0"
    by (simp add: sample_world_def sample_tokens_def)
  from check_token_expiry [of empty_world 800000 sample_tokens 1000000]
    check_token_expiry [of sample_world 800000 sample_tokens 1000000] h1 h2
  show ?thesis by blast
qed

end
